theory Spec2Isabelle
  imports Complex_Main "HOL-Library.Log_Nat"
begin

section \<open>The weather widget: data, controller and renderer\<close>

text \<open>
  The repository holds one React component, \<open>Weather\<close>, in two variants:
  \<^verbatim>\<open>src/Containers/Weather.tsx\<close> and a second file with two more fields and a
  Fahrenheit conversion written inline. The controller (the \<open>useState\<close> cells, the
  \<open>useEffect\<close> that fetches, \<open>toggleTempUnit\<close>, \<open>handleSearch\<close>) is the same text in
  both; the renderers differ and are modelled separately, the second one under the
  suffix \<open>_000\<close>.
\<close>

subsection \<open>JavaScript numbers\<close>

text \<open>
  A JavaScript \<open>number\<close> is an IEEE-754 binary64 value. The model carries a finite
  double as the rational it denotes. Every arithmetic operation computes the exact
  result and rounds it to the nearest double, ties to the even significand (\<open>fl\<close>).
  Not represented: \<open>NaN\<close>, the infinities and the sign of zero. JSON cannot transmit the
  first two, and the sign of zero is not observable through \<open>* 9 / 5 + 32\<close> and
  \<open>toFixed\<close>. Where JavaScript overflows to \<open>Infinity\<close> (results of magnitude \<open>2^1024\<close> and
  more) \<open>fl\<close> returns a finite value, and \<open>toFixed1\<close> below describes values of
  magnitude under \<open>10^21\<close> only; every statement about numbers is made inside these
  ranges.
\<close>

type_synonym number = rat

definition expo :: "rat \<Rightarrow> int" where
  \<comment> \<open>the binary exponent \<open>e\<close> of a non-zero value: \<open>2^e \<le> |x| < 2^(e+1)\<close>\<close>
  "expo x =
     (let a = \<bar>x\<bar>;
          d = bitlen (fst (quotient_of a)) - bitlen (snd (quotient_of a))
      in if 2 powi d \<le> a then d else d - 1)"

definition round_even :: "rat \<Rightarrow> int" where
  \<comment> \<open>nearest integer, a tie going to the even one\<close>
  "round_even r =
     (let f = \<lfloor>r\<rfloor>; d = r - of_int f
      in if d < 1/2 then f else if 1/2 < d then f + 1 else if even f then f else f + 1)"

definition fl :: "rat \<Rightarrow> number" where
  \<comment> \<open>round to nearest binary64: 53 significant bits, least exponent \<open>-1022\<close>
      (below it the spacing stays \<open>2^-1074\<close>, the subnormal range)\<close>
  "fl x =
     (if x = 0 then 0
      else let u = 2 powi (max (expo x) (- 1022) - 52)
           in sgn x * of_int (round_even (\<bar>x\<bar> / u)) * u)"

definition fmul :: "number \<Rightarrow> number \<Rightarrow> number" where
  "fmul a b = fl (a * b)"

definition fdiv :: "number \<Rightarrow> number \<Rightarrow> number" where
  "fdiv a b = fl (a / b)"

definition fadd :: "number \<Rightarrow> number \<Rightarrow> number" where
  "fadd a b = fl (a + b)"

text \<open>
  \<open>x.toFixed(1)\<close> returns a string: an optional minus sign, the decimal digits of an
  integer \<open>n\<close> with a point before the last digit, where \<open>n\<close> is the integer for which
  \<open>n / 10 - |x|\<close> is closest to zero, the larger one if there are two (ECMA-262,
  Number.prototype.toFixed; this is the branch for \<open>|x| < 10^21\<close>). The model keeps the sign
  and \<open>n\<close>; \<open>fixed1_text\<close> spells the characters.
\<close>

datatype fixed1 = Fixed1 bool nat

definition toFixed1 :: "number \<Rightarrow> fixed1" where
  "toFixed1 x =
     (if x < 0 then Fixed1 True (nat \<lfloor>- x * 10 + 1/2\<rfloor>)
      else Fixed1 False (nat \<lfloor>x * 10 + 1/2\<rfloor>))"

definition digit_char :: "nat \<Rightarrow> char" where
  "digit_char d = char_of (48 + d)"

function digits :: "nat \<Rightarrow> string" where
  "digits n = (if n < 10 then [digit_char n] else digits (n div 10) @ [digit_char (n mod 10)])"
  by pat_completeness auto
termination
  by (relation "measure id") auto

declare digits.simps [simp del]

fun fixed1_text :: "fixed1 \<Rightarrow> string" where
  "fixed1_text (Fixed1 neg n) =
     (if neg then ''-'' else '''') @ digits (n div 10) @ ''.'' @ digits (n mod 10)"

fun fixed1_value :: "fixed1 \<Rightarrow> rat" where
  \<comment> \<open>the decimal number the characters denote\<close>
  "fixed1_value (Fixed1 neg n) = (if neg then - (of_nat n / 10) else of_nat n / 10)"

text \<open>
  The value of a JSX expression in braces is a number (React prints it) or the string
  that \<open>toFixed\<close> returned. \<open>Number(v)\<close> leaves a number alone and converts a decimal
  string to the nearest double.
\<close>

datatype jsx_value = Num number | Str fixed1

fun Number_js :: "jsx_value \<Rightarrow> number" where
  "Number_js (Num x) = x"
| "Number_js (Str s) = fl (fixed1_value s)"

definition toFahrenheit :: "number \<Rightarrow> fixed1" where
  \<comment> \<open>the inline expression \<^verbatim>\<open>((c * 9/5) + 32).toFixed(1)\<close> of the second variant;
      \<^verbatim>\<open>c * 9/5\<close> parses as \<^verbatim>\<open>(c * 9) / 5\<close>\<close>
  "toFahrenheit c = toFixed1 (fadd (fdiv (fmul c 9) 5) 32)"

subsection \<open>The provider's payload\<close>

record Condition =
  cond_text :: string
  cond_icon :: string

record Location =
  name :: string

record Current =
  temp_c :: number
  temp_f :: number
  condition :: Condition
  wind_kph :: number
  precip_mm :: number
  uv :: number
  humidity :: number
  visibility_km :: number

record Day =
  maxtemp_c :: number
  maxtemp_f :: number
  mintemp_c :: number
  mintemp_f :: number
  day_condition :: Condition

record ForecastDay =
  date :: string
  day :: Day

record Forecast =
  forecastday :: "ForecastDay list"

record WeatherData =
  location :: Location
  current :: Current
  forecast :: Forecast

datatype TempUnit = UnitC | UnitF

fun unit_text :: "TempUnit \<Rightarrow> string" where
  "unit_text UnitC = ''C''"
| "unit_text UnitF = ''F''"

subsection \<open>Component state and its environment\<close>

text \<open>The four \<open>useState\<close> cells of \<open>Weather\<close>.\<close>

record State =
  weatherData :: "WeatherData option"
  searchQuery :: string
  error :: "string option"
  tempUnit :: TempUnit

text \<open>
  What the component does to the outside is kept beside its state: the URLs handed to
  \<open>axios.get\<close> (oldest first), which of those promises have not settled yet (by position
  in that list), and the lines written with \<open>console.error\<close>.
\<close>

record World =
  ui :: State
  requests :: "string list"
  pending :: "nat list"
  console :: "string list"

definition url :: "string \<Rightarrow> string" where
  "url q = ''https://api.weatherapi.com/v1/forecast.json?key=83ef98777f7d4279b8b110122242203&q=''
            @ q @ ''&days=5''"

definition axios_get :: "string \<Rightarrow> World \<Rightarrow> World" where
  "axios_get u w = w\<lparr>requests := requests w @ [u], pending := pending w @ [length (requests w)]\<rparr>"

definition useEffect :: "World \<Rightarrow> World" where
  \<comment> \<open>the effect body: \<^verbatim>\<open>if (searchQuery) { axios.get(...) }\<close>; a string is truthy when
      it is not empty\<close>
  "useEffect w = (if searchQuery (ui w) \<noteq> [] then axios_get (url (searchQuery (ui w))) w else w)"

definition initial :: State where
  "initial = \<lparr>weatherData = None, searchQuery = [], error = None, tempUnit = UnitC\<rparr>"

definition mount :: World where
  \<comment> \<open>first render, then the effect runs once\<close>
  "mount = useEffect \<lparr>ui = initial, requests = [], pending = [], console = []\<rparr>"

definition handleSearch :: "string \<Rightarrow> World \<Rightarrow> World" where
  \<comment> \<open>\<^verbatim>\<open>setSearchQuery(target.location.value)\<close>; the effect has the dependency list
      \<^verbatim>\<open>[searchQuery]\<close>, so React runs it again only when the rendered value changed\<close>
  "handleSearch v w =
     (if v = searchQuery (ui w) then w
      else useEffect (w\<lparr>ui := (ui w)\<lparr>searchQuery := v\<rparr>\<rparr>))"

definition toggleTempUnit :: "World \<Rightarrow> World" where
  "toggleTempUnit w =
     w\<lparr>ui := (ui w)\<lparr>tempUnit := (if tempUnit (ui w) = UnitC then UnitF else UnitC)\<rparr>\<rparr>"

definition on_then :: "WeatherData \<Rightarrow> World \<Rightarrow> World" where
  \<comment> \<open>\<^verbatim>\<open>.then((response) => { setWeatherData(response.data); setError(null); })\<close>\<close>
  "on_then d w = w\<lparr>ui := (ui w)\<lparr>weatherData := Some d, error := None\<rparr>\<rparr>"

definition on_catch :: "string \<Rightarrow> World \<Rightarrow> World" where
  \<comment> \<open>\<^verbatim>\<open>.catch((error) => { console.error(`Error: ${error}`); setError(...);
      setWeatherData(null); })\<close>; the argument is the text of the rejection reason\<close>
  "on_catch e w =
     w\<lparr>ui := (ui w)\<lparr>error := Some ''Location is not available'', weatherData := None\<rparr>,
       console := console w @ [''Error: '' @ e]\<rparr>"

text \<open>
  The events the component reacts to. A promise settles once, so \<open>Fulfil i\<close> and
  \<open>Reject i\<close> act only while request \<open>i\<close> is pending; each callback runs to its end
  before the next event (one thread, and both setters of a callback take effect together).
\<close>

datatype event = Submit string | Toggle | Fulfil nat WeatherData | Reject nat string

fun step :: "event \<Rightarrow> World \<Rightarrow> World" where
  "step (Submit v) w = handleSearch v w"
| "step Toggle w = toggleTempUnit w"
| "step (Fulfil i d) w =
     (if i \<in> set (pending w) then on_then d (w\<lparr>pending := removeAll i (pending w)\<rparr>) else w)"
| "step (Reject i e) w =
     (if i \<in> set (pending w) then on_catch e (w\<lparr>pending := removeAll i (pending w)\<rparr>) else w)"

definition run :: "event list \<Rightarrow> World" where
  "run evs = fold step evs mount"

text \<open>
  The specification's tagged \<open>result\<close>, read off the two nullable cells. The pair with
  both cells filled has no tag.
\<close>

datatype result = Empty | Success WeatherData | Failure string

fun result_of :: "State \<Rightarrow> result option" where
  "result_of s =
     (case (weatherData s, error s) of
        (None, None) \<Rightarrow> Some Empty
      | (Some d, None) \<Rightarrow> Some (Success d)
      | (None, Some m) \<Rightarrow> Some (Failure m)
      | (Some d, Some m) \<Rightarrow> None)"

subsection \<open>The renderers\<close>

text \<open>
  The view keeps the children that carry data: texts, image attributes and the values in
  braces. Class names, styles, the animation wrappers and the decorative symbol that the
  second variant picks from the condition text (\<open>getWeatherAnimation\<close>) are left out.
\<close>

record CardView =
  card_date :: string
  card_img_src :: string
  card_img_alt :: string
  card_text :: string
  card_max :: jsx_value
  card_min :: jsx_value
  card_unit :: TempUnit

record PanelView =
  heading_name :: string
  temp_shown :: jsx_value
  temp_unit :: TempUnit
  img_src :: string
  img_alt :: string
  text_shown :: string
  wind_shown :: number
  precip_shown :: number
  uv_shown :: number
  humidity_shown :: "number option"
  visibility_shown :: "number option"
  cards :: "CardView list"

record WeatherView =
  toggle_label :: string
  error_text :: "string option"
  panel :: "PanelView option"

definition ForecastCard ::
  "string \<Rightarrow> number \<Rightarrow> number \<Rightarrow> string \<Rightarrow> string \<Rightarrow> TempUnit \<Rightarrow> CardView" where
  \<comment> \<open>Weather.tsx: \<^verbatim>\<open>{tempUnit === 'C' ? maxTemp : maxTemp}\<close>\<close>
  "ForecastCard date' maxTemp minTemp conditionText conditionIcon tempUnit' =
     \<lparr>card_date = date', card_img_src = conditionIcon, card_img_alt = conditionText,
      card_text = conditionText,
      card_max = Num (if tempUnit' = UnitC then maxTemp else maxTemp),
      card_min = Num (if tempUnit' = UnitC then minTemp else minTemp),
      card_unit = tempUnit'\<rparr>"

definition ForecastCard_000 ::
  "string \<Rightarrow> number \<Rightarrow> number \<Rightarrow> string \<Rightarrow> string \<Rightarrow> TempUnit \<Rightarrow> CardView" where
  \<comment> \<open>second variant:
      \<^verbatim>\<open>{tempUnit === 'C' ? maxTemp : ((maxTemp * 9/5) + 32).toFixed(1)}\<close>\<close>
  "ForecastCard_000 date' maxTemp minTemp conditionText conditionIcon tempUnit' =
     \<lparr>card_date = date', card_img_src = conditionIcon, card_img_alt = conditionText,
      card_text = conditionText,
      card_max = (if tempUnit' = UnitC then Num maxTemp else Str (toFahrenheit maxTemp)),
      card_min = (if tempUnit' = UnitC then Num minTemp else Str (toFahrenheit minTemp)),
      card_unit = tempUnit'\<rparr>"

definition error_shown :: "State \<Rightarrow> string option" where
  \<comment> \<open>\<^verbatim>\<open>{error && <p>{error}</p>}\<close>: nothing for \<open>null\<close> and for the empty string\<close>
  "error_shown s = (case error s of None \<Rightarrow> None | Some m \<Rightarrow> if m = [] then None else Some m)"

definition toggle_text :: "State \<Rightarrow> string" where
  "toggle_text s = ''Switch to '' @ (if tempUnit s = UnitC then ''Fahrenheit'' else ''Celsius'')"

definition Weather :: "State \<Rightarrow> WeatherView" where
  \<comment> \<open>Weather.tsx\<close>
  "Weather s =
     \<lparr>toggle_label = toggle_text s,
      error_text = error_shown s,
      panel =
        (case weatherData s of
           None \<Rightarrow> None
         | Some wd \<Rightarrow> Some
            \<lparr>heading_name = name (location wd),
             temp_shown = Num (if tempUnit s = UnitC then temp_c (current wd) else temp_f (current wd)),
             temp_unit = tempUnit s,
             img_src = cond_icon (condition (current wd)),
             img_alt = cond_text (condition (current wd)),
             text_shown = cond_text (condition (current wd)),
             wind_shown = wind_kph (current wd),
             precip_shown = precip_mm (current wd),
             uv_shown = uv (current wd),
             humidity_shown = None,
             visibility_shown = None,
             cards =
               map (\<lambda>d. ForecastCard (date d) (maxtemp_c (day d)) (mintemp_c (day d))
                           (cond_text (day_condition (day d))) (cond_icon (day_condition (day d)))
                           (tempUnit s))
                   (forecastday (forecast wd))\<rparr>)\<rparr>"

definition Weather_000 :: "State \<Rightarrow> WeatherView" where
  \<comment> \<open>second variant; the card props are
      \<^verbatim>\<open>maxTemp={Number(tempUnit === 'C' ? day.day.maxtemp_c
                                          : ((day.day.maxtemp_c * 9/5) + 32).toFixed(1))}\<close>\<close>
  "Weather_000 s =
     \<lparr>toggle_label = toggle_text s,
      error_text = error_shown s,
      panel =
        (case weatherData s of
           None \<Rightarrow> None
         | Some wd \<Rightarrow> Some
            \<lparr>heading_name = name (location wd),
             temp_shown = (if tempUnit s = UnitC then Num (temp_c (current wd))
                           else Str (toFahrenheit (temp_c (current wd)))),
             temp_unit = tempUnit s,
             img_src = cond_icon (condition (current wd)),
             img_alt = cond_text (condition (current wd)),
             text_shown = cond_text (condition (current wd)),
             wind_shown = wind_kph (current wd),
             precip_shown = precip_mm (current wd),
             uv_shown = uv (current wd),
             humidity_shown = Some (humidity (current wd)),
             visibility_shown = Some (visibility_km (current wd)),
             cards =
               map (\<lambda>d. ForecastCard_000 (date d)
                           (Number_js (if tempUnit s = UnitC then Num (maxtemp_c (day d))
                                       else Str (toFahrenheit (maxtemp_c (day d)))))
                           (Number_js (if tempUnit s = UnitC then Num (mintemp_c (day d))
                                       else Str (toFahrenheit (mintemp_c (day d)))))
                           (cond_text (day_condition (day d))) (cond_icon (day_condition (day d)))
                           (tempUnit s))
                   (forecastday (forecast wd))\<rparr>)\<rparr>"

subsection \<open>Auxiliary notions and sample data\<close>

text \<open>A text is blank when it consists of white space only (the empty text included).\<close>

definition is_space :: "char \<Rightarrow> bool" where
  "is_space c = (c \<in> set [CHR '' '', CHR 0x09, CHR 0x0A, CHR 0x0D])"

definition blank :: "string \<Rightarrow> bool" where
  "blank v = list_all is_space v"

text \<open>The forecast cards a view contains; none when there is no weather panel.\<close>

definition shown_cards :: "WeatherView \<Rightarrow> CardView list" where
  "shown_cards v = (case panel v of None \<Rightarrow> [] | Some p \<Rightarrow> cards p)"

text \<open>What holds of every world the component can reach (used as an induction invariant).\<close>

definition world_ok :: "World \<Rightarrow> bool" where
  "world_ok w \<longleftrightarrow>
     distinct (pending w) \<and> (\<forall>i \<in> set (pending w). i < length (requests w))
     \<and> result_of (ui w) \<noteq> None
     \<and> (result_of (ui w) = Some Empty \<longleftrightarrow> length (pending w) = length (requests w))"

text \<open>Payloads and states for the concrete runs below.\<close>

definition sample_day :: "string \<Rightarrow> number \<Rightarrow> number \<Rightarrow> ForecastDay" where
  "sample_day dt hi lo =
     \<lparr>date = dt,
      day = \<lparr>maxtemp_c = hi, maxtemp_f = hi * 9 / 5 + 32, mintemp_c = lo, mintemp_f = lo * 9 / 5 + 32,
             day_condition = \<lparr>cond_text = ''Sunny'', cond_icon = ''sun.png''\<rparr>\<rparr>\<rparr>"

definition sample :: "string \<Rightarrow> number \<Rightarrow> ForecastDay list \<Rightarrow> WeatherData" where
  "sample nm t ds =
     \<lparr>location = \<lparr>name = nm\<rparr>,
      current = \<lparr>temp_c = t, temp_f = t * 9 / 5 + 32,
                 condition = \<lparr>cond_text = ''Sunny'', cond_icon = ''sun.png''\<rparr>,
                 wind_kph = 0, precip_mm = 0, uv = 0, humidity = 0, visibility_km = 0\<rparr>,
      forecast = \<lparr>forecastday = ds\<rparr>\<rparr>"

definition five_days :: "ForecastDay list" where
  "five_days =
     [sample_day ''2024-03-23'' 20 10, sample_day ''2024-03-24'' 21 11,
      sample_day ''2024-03-25'' 19 9, sample_day ''2024-03-26'' 18 8,
      sample_day ''2024-03-27'' 22 12]"

definition showing :: "WeatherData \<Rightarrow> TempUnit \<Rightarrow> State" where
  "showing wd u =
     \<lparr>weatherData = Some wd, searchQuery = name (location wd), error = None, tempUnit = u\<rparr>"

section \<open>The search controller\<close>

lemmas ctl_defs = run_def mount_def useEffect_def handleSearch_def toggleTempUnit_def
  on_then_def on_catch_def axios_get_def initial_def

lemma run_snoc: "run (evs @ [e]) = step e (run evs)"
  by (simp add: run_def)

text \<open>
  C7. From every state, toggling the unit twice gives the display unit it started from
  (indeed the whole world it started from); one toggle changes neither the stored data
  nor the stored error message, and issues no request.
\<close>

theorem toggle_twice_and_no_effect:
  "step Toggle (step Toggle w) = w
   \<and> tempUnit (ui (step Toggle (step Toggle w))) = tempUnit (ui w)
   \<and> tempUnit (ui (step Toggle w)) \<noteq> tempUnit (ui w)
   \<and> weatherData (ui (step Toggle w)) = weatherData (ui w)
   \<and> error (ui (step Toggle w)) = error (ui w)
   \<and> result_of (ui (step Toggle w)) = result_of (ui w)
   \<and> requests (step Toggle w) = requests w
   \<and> pending (step Toggle w) = pending w"
  by (cases "tempUnit (ui w)") (simp_all add: toggleTempUnit_def)

subsection \<open>Responses are applied in the order they arrive\<close>

text \<open>
  C1, as stated, asks that a response to a superseded query be discarded. The effect has
  no cleanup function and the callbacks carry no request token: after London and then
  Tokyo are submitted and the Tokyo response arrives first, the London response that
  arrives later is shown, while the query cell says Tokyo.
\<close>

theorem stale_response_overwrites:
  "result_of (ui (run [Submit ''London'', Submit ''Tokyo'',
                       Fulfil 1 (sample ''Tokyo'' 25 []), Fulfil 0 (sample ''London'' 12 [])]))
     = Some (Success (sample ''London'' 12 []))
   \<and> searchQuery (ui (run [Submit ''London'', Submit ''Tokyo'',
                       Fulfil 1 (sample ''Tokyo'' 25 []), Fulfil 0 (sample ''London'' 12 [])]))
     = ''Tokyo''
   \<and> sample ''London'' 12 [] \<noteq> sample ''Tokyo'' 25 []"
  by (simp add: ctl_defs sample_def)

text \<open>
  C1, amended. No response is discarded: with two fetches in flight, each response is
  stored when it arrives, whichever submission it belongs to, so after both have arrived
  the result is the one that arrived last.
\<close>

theorem last_response_wins:
  assumes "i \<in> set (pending w)" and "j \<in> set (pending w)" and "i \<noteq> j"
  shows "result_of (ui (step (Fulfil i di) w)) = Some (Success di)
       \<and> result_of (ui (step (Fulfil j dj) (step (Fulfil i di) w))) = Some (Success dj)"
  using assms by (simp add: on_then_def)

theorem last_response_wins_witness:
  "result_of (ui (step (Fulfil 0 (sample ''London'' 12 []))
                    (step (Fulfil 1 (sample ''Tokyo'' 25 []))
                       (run [Submit ''London'', Submit ''Tokyo'']))))
     = Some (Success (sample ''London'' 12 []))"
  using last_response_wins [of 1 "run [Submit ''London'', Submit ''Tokyo'']" 0
      "sample ''Tokyo'' 25 []" "sample ''London'' 12 []"]
  by (simp add: ctl_defs)

subsection \<open>Which submissions fetch\<close>

text \<open>
  C3, as stated, has a blank submission change nothing and fetch nothing. The handler
  stores the field's value as it is, and the effect tests the stored string for
  emptiness only: two spaces are fetched, and an empty submission after Paris empties the
  query cell.
\<close>

theorem blank_submission_fetches:
  "blank ''  ''
   \<and> requests (step (Submit ''  '') mount) = [url ''  '']
   \<and> searchQuery (ui (step (Submit ''  '') mount)) \<noteq> searchQuery (ui mount)
   \<and> searchQuery (ui (run [Submit ''Paris''])) = ''Paris''
   \<and> searchQuery (ui (run [Submit ''Paris'', Submit []])) = []"
  by (simp add: ctl_defs blank_def is_space_def)

text \<open>
  C3, amended. Submitting the empty text issues no fetch and leaves the stored data, the
  stored error and the display unit unchanged; the query becomes the empty text. The text
  is not trimmed: a blank text that is not empty and differs from the current query is
  stored and fetched like any other.
\<close>

theorem empty_submission:
  "requests (step (Submit []) w) = requests w
   \<and> pending (step (Submit []) w) = pending w
   \<and> weatherData (ui (step (Submit []) w)) = weatherData (ui w)
   \<and> error (ui (step (Submit []) w)) = error (ui w)
   \<and> tempUnit (ui (step (Submit []) w)) = tempUnit (ui w)
   \<and> searchQuery (ui (step (Submit []) w)) = []
   \<and> (blank v \<and> v \<noteq> [] \<and> v \<noteq> searchQuery (ui w) \<longrightarrow>
        requests (step (Submit v) w) = requests w @ [url v]
        \<and> searchQuery (ui (step (Submit v) w)) = v)"
  by (simp add: handleSearch_def useEffect_def axios_get_def)

theorem empty_submission_witness:
  "blank '' ''
   \<and> requests (step (Submit '' '') (run [Submit ''Paris''])) = [url ''Paris'', url '' '']
   \<and> requests (step (Submit []) (run [Submit ''Paris''])) = [url ''Paris'']
   \<and> searchQuery (ui (step (Submit []) (run [Submit ''Paris'']))) = []"
  using empty_submission [of "run [Submit ''Paris'']" "'' ''"]
  by (simp add: ctl_defs blank_def is_space_def)

text \<open>
  C4, as stated, has every non-empty submission fetch once, a repeated text included.
  The effect depends on \<open>[searchQuery]\<close>: submitting Paris twice leaves the cell unchanged
  the second time, and one request is issued in all.
\<close>

theorem resubmission_does_not_fetch:
  "length (requests (run [Submit ''Paris'', Submit ''Paris''])) = 1
   \<and> \<not> blank ''Paris''"
  by (simp add: ctl_defs blank_def is_space_def)

text \<open>
  C4, amended. A submission whose text is not empty and differs from the current query
  issues exactly one request, for that text; a submission of the current query's text
  changes nothing and issues none; no request is issued on mount, on a unit toggle, or
  when a response arrives.
\<close>

theorem one_call_per_changed_query:
  "(v \<noteq> [] \<and> v \<noteq> searchQuery (ui w) \<longrightarrow> requests (step (Submit v) w) = requests w @ [url v])
   \<and> (v = searchQuery (ui w) \<longrightarrow> step (Submit v) w = w)
   \<and> requests mount = []
   \<and> requests (step Toggle w) = requests w
   \<and> requests (step (Fulfil i d) w) = requests w
   \<and> requests (step (Reject i e) w) = requests w"
  by (simp add: ctl_defs)

theorem one_call_per_changed_query_witness:
  "requests (step (Submit ''Tokyo'') (run [Submit ''Paris''])) = [url ''Paris'', url ''Tokyo'']
   \<and> step (Submit ''Paris'') (run [Submit ''Paris'']) = run [Submit ''Paris'']"
  using one_call_per_changed_query [of "''Tokyo''" "run [Submit ''Paris'']"]
        one_call_per_changed_query [of "''Paris''" "run [Submit ''Paris'']"]
  by (simp add: ctl_defs)

subsection \<open>Failures\<close>




subsection \<open>The result has one variant at a time\<close>

lemma pending_le: "distinct ps \<Longrightarrow> \<forall>i \<in> set ps. i < n \<Longrightarrow> length ps \<le> n"
proof -
  assume d: "distinct ps" and b: "\<forall>i \<in> set ps. i < n"
  have "card (set ps) \<le> card {..<n}" by (rule card_mono) (use b in auto)
  with d show ?thesis by (simp add: distinct_card)
qed

lemma length_removeAll_distinct:
  "distinct ps \<Longrightarrow> i \<in> set ps \<Longrightarrow> Suc (length (removeAll i ps)) = length ps"
  by (induction ps) (auto simp: distinct_removeAll)

lemma world_ok_mount: "world_ok mount"
  by (simp add: world_ok_def ctl_defs)

lemma world_ok_submit: "world_ok w \<Longrightarrow> world_ok (handleSearch v w)"
  by (auto simp: world_ok_def handleSearch_def useEffect_def axios_get_def less_Suc_eq
           split: option.splits)

lemma world_ok_toggle: "world_ok w \<Longrightarrow> world_ok (toggleTempUnit w)"
  by (simp add: world_ok_def toggleTempUnit_def)

lemma settle_lengths:
  assumes "world_ok w" and "i \<in> set (pending w)"
  shows "length (removeAll i (pending w)) < length (requests w)"
proof -
  from assms have "length (pending w) \<le> length (requests w)"
    by (intro pending_le) (auto simp: world_ok_def)
  moreover from assms have "Suc (length (removeAll i (pending w))) = length (pending w)"
    by (intro length_removeAll_distinct) (auto simp: world_ok_def)
  ultimately show ?thesis by linarith
qed

lemma world_ok_then:
  "world_ok w \<Longrightarrow> i \<in> set (pending w) \<Longrightarrow>
   world_ok (on_then d (w\<lparr>pending := removeAll i (pending w)\<rparr>))"
  using settle_lengths [of w i]
  by (auto simp: world_ok_def on_then_def distinct_removeAll)

lemma world_ok_catch:
  "world_ok w \<Longrightarrow> i \<in> set (pending w) \<Longrightarrow>
   world_ok (on_catch e (w\<lparr>pending := removeAll i (pending w)\<rparr>))"
  using settle_lengths [of w i]
  by (auto simp: world_ok_def on_catch_def distinct_removeAll)

lemma world_ok_step: "world_ok w \<Longrightarrow> world_ok (step e w)"
  by (cases e) (simp_all add: world_ok_submit world_ok_toggle world_ok_then world_ok_catch)

lemma world_ok_run: "world_ok (run evs)"
proof (induction evs rule: rev_induct)
  case Nil
  show ?case by (simp add: run_def world_ok_mount)
next
  case (snoc e evs)
  then show ?case by (simp add: run_snoc world_ok_step)
qed

text \<open>
  C8. After any sequence of events the two cells form exactly one variant: never data and
  an error message together; \<open>Empty\<close> exactly as long as no request has settled, and
  \<open>Success\<close> or \<open>Failure\<close> from the first settled request on.
\<close>

theorem result_one_variant:
  "result_of (ui (run evs)) \<noteq> None
   \<and> (result_of (ui (run evs)) = Some Empty
        \<longleftrightarrow> length (pending (run evs)) = length (requests (run evs)))
   \<and> \<not> (weatherData (ui (run evs)) \<noteq> None \<and> error (ui (run evs)) \<noteq> None)"
  using world_ok_run [of evs] by (auto simp: world_ok_def split: option.splits)

theorem result_one_variant_witness:
  "result_of (ui (run [Submit ''Paris''])) = Some Empty
   \<and> result_of (ui (run [Submit ''Paris'', Reject 0 ''Network Error'']))
       = Some (Failure ''Location is not available'')
   \<and> result_of (ui (run [Submit ''Paris'', Reject 0 ''Network Error'', Submit ''Oslo'',
                          Fulfil 1 (sample ''Oslo'' 3 [])]))
       = Some (Success (sample ''Oslo'' 3 []))"
  using result_one_variant [of "[Submit ''Paris'']"]
  by (simp add: ctl_defs)

section \<open>The Fahrenheit conversion\<close>

subsection \<open>Rounding to the nearest double\<close>

lemma round_even_err: "\<bar>of_int (round_even r) - r\<bar> \<le> 1/2"
proof -
  have "of_int \<lfloor>r\<rfloor> \<le> r" "r < of_int \<lfloor>r\<rfloor> + 1" by linarith+
  then show ?thesis
    by (auto simp: round_even_def Let_def)
qed

lemma expo_bounds:
  assumes "x \<noteq> 0"
  shows "2 powi (expo x) \<le> \<bar>x\<bar> \<and> \<bar>x\<bar> < 2 powi (expo x + 1)"
proof -
  define a where "a = \<bar>x\<bar>"
  obtain p q where pq: "quotient_of a = (p, q)" by (cases "quotient_of a")
  from assms have apos: "0 < a" by (simp add: a_def)
  have q: "0 < q" using pq quotient_of_denom_pos by blast
  have a: "a = of_int p / of_int q" using pq quotient_of_div by blast
  from apos a q have p: "0 < p" by (simp add: zero_less_divide_iff)
  define bp where "bp = bitlen p"
  define bq where "bq = bitlen q"
  have bp1: "1 \<le> bp" and bq1: "1 \<le> bq"
    using p q bitlen_nonneg[of p] bitlen_nonneg[of q] bitlen_eq_zero_iff[of p] bitlen_eq_zero_iff[of q]
    by (auto simp: bp_def bq_def)
  have pb: "(2::int) ^ nat (bp - 1) \<le> p" "p < 2 ^ nat bp"
    using bitlen_bounds[OF p] by (auto simp: bp_def)
  have qb: "(2::int) ^ nat (bq - 1) \<le> q" "q < 2 ^ nat bq"
    using bitlen_bounds[OF q] by (auto simp: bq_def)
  have pr: "(2::rat) powi (bp - 1) \<le> of_int p" "(of_int p :: rat) < 2 powi bp"
  proof -
    have "(2::rat) powi (bp - 1) = of_int (2 ^ nat (bp - 1))"
      using bp1 by (simp add: power_int_def)
    then show "(2::rat) powi (bp - 1) \<le> of_int p" using pb(1) by (simp only: of_int_le_iff)
    have "(2::rat) powi bp = of_int (2 ^ nat bp)"
      using bp1 by (simp add: power_int_def)
    then show "(of_int p :: rat) < 2 powi bp" using pb(2) by (simp only: of_int_less_iff)
  qed
  have qr: "(2::rat) powi (bq - 1) \<le> of_int q" "(of_int q :: rat) < 2 powi bq"
  proof -
    have "(2::rat) powi (bq - 1) = of_int (2 ^ nat (bq - 1))"
      using bq1 by (simp add: power_int_def)
    then show "(2::rat) powi (bq - 1) \<le> of_int q" using qb(1) by (simp only: of_int_le_iff)
    have "(2::rat) powi bq = of_int (2 ^ nat bq)"
      using bq1 by (simp add: power_int_def)
    then show "(of_int q :: rat) < 2 powi bq" using qb(2) by (simp only: of_int_less_iff)
  qed
  have P: "(0::rat) < of_int p" and Q: "(0::rat) < of_int q" using p q by simp_all
  have lo: "(2::rat) powi (bp - bq - 1) < a"
  proof -
    have "(2::rat) powi (bp - bq - 1) = 2 powi (bp - 1) / 2 powi bq"
      by (simp add: power_int_diff)
    also have "\<dots> < a"
      by (metis Q a frac_less2 pr(1) qr(2) zero_less_numeral zero_less_power_int)
    finally show ?thesis .
  qed
  have hi: "a < (2::rat) powi (bp - bq + 1)"
  proof -
    have "(2::rat) powi (bp - bq + 1) = 2 powi bp / 2 powi (bq - 1)"
      by (simp add: power_int_diff power_int_add)
    moreover have "a < 2 powi bp / 2 powi (bq - 1)"
      unfolding a using P pr(2) qr(1) by (intro frac_less) simp_all
    ultimately show ?thesis by simp
  qed
  have e: "expo x = (if 2 powi (bp - bq) \<le> a then bp - bq else bp - bq - 1)"
    by (simp add: expo_def Let_def a_def[symmetric] pq bp_def bq_def)
  show ?thesis
  proof (cases "2 powi (bp - bq) \<le> a")
    case True
    with e hi show ?thesis by (simp add: a_def)
  next
    case False
    with e lo show ?thesis by (simp add: a_def)
  qed
qed

lemma fl_err:
  assumes "1 \<le> B" and "\<bar>x\<bar> \<le> B"
  shows "\<bar>fl x - x\<bar> \<le> B / 2 ^ 53"
proof (cases "x = 0")
  case True
  with assms show ?thesis by (simp add: fl_def)
next
  case False
  define e where "e = max (expo x) (- 1022)"
  define u :: rat where "u = 2 powi (e - 52)"
  define m where "m = round_even (\<bar>x\<bar> / u)"
  have upos: "0 < u" by (simp add: u_def)
  have flx: "fl x = sgn x * of_int m * u"
    using False by (simp add: fl_def Let_def e_def u_def m_def)
  have "fl x - x = sgn x * (of_int m * u) - sgn x * \<bar>x\<bar>"
    by (simp only: flx sgn_mult_abs mult.assoc)
  then have "fl x - x = sgn x * (of_int m * u - \<bar>x\<bar>)"
    by (simp only: right_diff_distrib)
  then have "\<bar>fl x - x\<bar> = \<bar>of_int m * u - \<bar>x\<bar>\<bar>"
    using False by (simp add: abs_mult abs_sgn_eq)
  also have "\<dots> = u * \<bar>of_int m - \<bar>x\<bar> / u\<bar>"
  proof -
    have "u * \<bar>of_int m - \<bar>x\<bar> / u\<bar> = \<bar>u * (of_int m - \<bar>x\<bar> / u)\<bar>"
      using upos by (simp add: abs_mult)
    also have "u * (of_int m - \<bar>x\<bar> / u) = of_int m * u - \<bar>x\<bar>"
      using upos by (simp add: algebra_simps)
    finally show ?thesis by simp
  qed
  also have "\<dots> \<le> u * (1/2)"
    using round_even_err[of "\<bar>x\<bar> / u"] upos by (simp add: m_def)
  also have "\<dots> \<le> B / 2 ^ 53"
  proof -
    have "(2::rat) powi e \<le> B"
    proof (cases "- 1022 \<le> expo x")
      case True
      then have "e = expo x" by (simp add: e_def)
      with expo_bounds[OF False] assms(2) show ?thesis by simp
    next
      case False
      then have "e = - 1022" by (simp add: e_def)
      then have "(2::rat) powi e \<le> 2 powi 0" by (intro power_int_increasing) simp_all
      then have "(2::rat) powi e \<le> 1" by simp
      with assms(1) show ?thesis by simp
    qed
    moreover have "u * (1/2) = 2 powi e / 2 ^ 53"
      by (simp add: u_def power_int_diff)
    ultimately show ?thesis by (simp add: divide_right_mono)
  qed
  finally show ?thesis .
qed

lemma toFixed1_stable:
  assumes "even w" and "w \<noteq> 0" and "\<bar>y - of_int w / 100\<bar> \<le> 1 / 1000"
  shows "toFixed1 y = toFixed1 (of_int w / 100)"
    and "\<bar>fixed1_value (toFixed1 (of_int w / 100)) - of_int w / 100\<bar> < 1 / 20"
proof -
  define v :: rat where "v = of_int w / 100"
  have key: "\<lfloor>t * 10 + 1/2\<rfloor> = (z + 5) div 10
             \<and> \<bar>of_int ((z + 5) div 10) / 10 - of_int z / 100\<bar> < (1/20 :: rat)"
    if "even z" and "\<bar>t - of_int z / 100\<bar> \<le> 1 / 1000" for t :: rat and z :: int
  proof -
    define n where "n = (z + 5) div 10"
    define r where "r = (z + 5) mod 10"
    have zr: "z + 5 = 10 * n + r" by (simp add: n_def r_def)
    have "odd r" using that(1) unfolding r_def by presburger
    moreover have "0 \<le> r" "r < 10" by (simp_all add: r_def)
    ultimately have r: "1 \<le> r" "r \<le> 9" by presburger+
    have z: "(of_int z :: rat) = 10 * of_int n + of_int r - 5"
      using zr by (metis add_diff_cancel_right' of_int_add of_int_mult of_int_numeral)
    have rr: "(1::rat) \<le> of_int r" "(of_int r :: rat) \<le> 9" using r by simp_all
    have "of_int n \<le> t * 10 + 1/2" "t * 10 + 1/2 < of_int n + 1"
      using that(2) z rr by linarith+
    then have "\<lfloor>t * 10 + 1/2\<rfloor> = n" by linarith
    moreover have "\<bar>of_int n / 10 - of_int z / 100\<bar> < (1/20 :: rat)"
      using z rr by linarith
    ultimately show ?thesis by (simp add: n_def)
  qed
  consider (pos) "0 < w" | (neg) "w < 0" using assms(2) by linarith
  then have "toFixed1 y = toFixed1 (of_int w / 100)
      \<and> \<bar>fixed1_value (toFixed1 (of_int w / 100)) - of_int w / 100\<bar> < 1 / 20"
  proof cases
    case pos
    then have "2 \<le> w" using assms(1) by presburger
    then have w2: "(2::rat) \<le> of_int w" by (metis of_int_le_iff of_int_numeral)
    then have vpos: "\<not> (of_int w / 100 :: rat) < 0" by simp
    have ypos: "\<not> y < 0" using assms(3) w2 by linarith
    have a: "\<lfloor>y * 10 + 1/2\<rfloor> = (w + 5) div 10"
      using key[OF assms(1) assms(3)] by simp
    have b: "\<lfloor>(of_int w / 100 :: rat) * 10 + 1/2\<rfloor> = (w + 5) div 10"
      and c: "\<bar>of_int ((w + 5) div 10) / 10 - of_int w / 100\<bar> < (1/20 :: rat)"
      using key[OF assms(1), of "of_int w / 100"] by simp_all
    have n0: "0 \<le> (w + 5) div 10" using pos by simp
    have eq: "toFixed1 y = Fixed1 False (nat ((w + 5) div 10))"
      "toFixed1 (of_int w / 100) = Fixed1 False (nat ((w + 5) div 10))"
      using ypos vpos a b by (simp_all only: toFixed1_def if_False)
    show ?thesis using c n0 by (simp add: eq)
  next
    case neg
    then have "w \<le> - 2" using assms(1) by presburger
    then have w2: "(of_int w :: rat) \<le> - 2" by (metis of_int_le_iff of_int_minus of_int_numeral)
    then have vneg: "(of_int w / 100 :: rat) < 0" by simp
    have yneg: "y < 0" using assms(3) w2 by linarith
    have ev: "even (- w)" using assms(1) by simp
    have d: "\<bar>- y - of_int (- w) / 100\<bar> \<le> 1 / 1000"
      unfolding of_int_minus using assms(3) by linarith
    have a: "\<lfloor>- y * 10 + 1/2\<rfloor> = (- w + 5) div 10"
      using key[OF ev d] by simp
    have b: "\<lfloor>- (of_int w / 100 :: rat) * 10 + 1/2\<rfloor> = (- w + 5) div 10"
      and c: "\<bar>of_int ((- w + 5) div 10) / 10 - of_int (- w) / 100\<bar> < (1/20 :: rat)"
      using key[OF ev, of "- (of_int w / 100)"] by simp_all
    have n0: "0 \<le> (- w + 5) div 10" using neg by simp
    have eq: "toFixed1 y = Fixed1 True (nat ((- w + 5) div 10))"
      "toFixed1 (of_int w / 100) = Fixed1 True (nat ((- w + 5) div 10))"
      using yneg vneg a b by (simp_all only: toFixed1_def if_True)
    have "\<bar>- (of_int ((- w + 5) div 10) / 10) - of_int w / 100\<bar> < (1/20 :: rat)"
      using c unfolding of_int_minus by linarith
    then show ?thesis using n0 by (simp add: eq)
  qed
  then show "toFixed1 y = toFixed1 (of_int w / 100)"
    and "\<bar>fixed1_value (toFixed1 (of_int w / 100)) - of_int w / 100\<bar> < 1 / 20"
    by simp_all
qed

subsection \<open>Inputs with one decimal digit\<close>

lemma toFahrenheit_decimal_input:
  assumes "\<bar>k\<bar> \<le> 10000000"
  shows "toFahrenheit (fl (of_int k / 10)) = toFixed1 (of_int k / 10 * 9 / 5 + 32)"
proof -
  define eps :: rat where "eps = 10000000 / 2 ^ 53"
  have eps: "0 \<le> eps" "eps \<le> 1 / 100000000" by (simp_all add: eps_def)
  define q :: rat where "q = of_int k / 10"
  have "\<bar>of_int k :: rat\<bar> \<le> 10000000"
    using assms by (metis of_int_abs of_int_le_iff of_int_numeral)
  then have q: "\<bar>q\<bar> \<le> 1000000" unfolding q_def by simp
  define c where "c = fl q"
  define a1 where "a1 = fl (c * 9)"
  define a2 where "a2 = fl (a1 / 5)"
  define a3 where "a3 = fl (a2 + 32)"
  have 0: "\<bar>c - q\<bar> \<le> eps"
    unfolding c_def eps_def using q by (intro fl_err) simp_all
  have "\<bar>c * 9\<bar> \<le> 10000000" using q 0 eps by linarith
  then have 1: "\<bar>a1 - c * 9\<bar> \<le> eps"
    unfolding a1_def eps_def by (intro fl_err) simp_all
  have "\<bar>a1 / 5\<bar> \<le> 10000000" using q 0 1 eps by linarith
  then have 2: "\<bar>a2 - a1 / 5\<bar> \<le> eps"
    unfolding a2_def eps_def by (intro fl_err) simp_all
  have "\<bar>a2 + 32\<bar> \<le> 10000000" using q 0 1 2 eps by linarith
  then have 3: "\<bar>a3 - (a2 + 32)\<bar> \<le> eps"
    unfolding a3_def eps_def by (intro fl_err) simp_all
  have "\<bar>a3 - (q * 9 / 5 + 32)\<bar> \<le> 1 / 1000"
    using 0 1 2 3 eps by linarith
  moreover have v: "q * 9 / 5 + 32 = of_int (18 * k + 3200) / 100"
    by (simp add: q_def field_simps)
  moreover have "even (18 * k + 3200)" by simp
  moreover have "18 * k + 3200 \<noteq> 0" by presburger
  ultimately have "toFixed1 a3 = toFixed1 (of_int (18 * k + 3200) / 100)"
    using toFixed1_stable(1)[of "18 * k + 3200" a3] by simp
  also have "\<dots> = toFixed1 (q * 9 / 5 + 32)" by (simp only: v)
  finally have "toFixed1 a3 = toFixed1 (q * 9 / 5 + 32)" .
  moreover have "toFahrenheit (fl q) = toFixed1 a3"
    by (simp only: toFahrenheit_def fadd_def fdiv_def fmul_def a3_def a2_def a1_def c_def)
  ultimately show ?thesis by (simp only: q_def)
qed


lemma toFixed1_nearest:
  assumes "\<bar>k\<bar> \<le> 10000000"
  shows "\<bar>fixed1_value (toFixed1 (of_int k / 10 * 9 / 5 + 32)) - (of_int k / 10 * 9 / 5 + 32)\<bar> < 1 / 20"
proof -
  have v: "(of_int k / 10 * 9 / 5 + 32 :: rat) = of_int (18 * k + 3200) / 100"
    by (simp add: field_simps)
  have "even (18 * k + 3200)" by simp
  moreover have "18 * k + 3200 \<noteq> 0" by presburger
  moreover have "\<bar>of_int (18 * k + 3200) / 100 - of_int (18 * k + 3200) / 100\<bar> \<le> (1 / 1000 :: rat)"
    by simp
  ultimately show ?thesis
    unfolding v by (rule toFixed1_stable(2))
qed

lemma toFahrenheit_0: "toFahrenheit 0 = Fixed1 False 320" by code_simp
lemma toFahrenheit_100: "toFahrenheit 100 = Fixed1 False 2120" by code_simp
lemma toFahrenheit_20: "toFahrenheit 20 = Fixed1 False 680" by code_simp
lemma toFahrenheit_10: "toFahrenheit 10 = Fixed1 False 500" by code_simp
lemma toFahrenheit_68: "toFahrenheit 68 = Fixed1 False 1544" by code_simp
lemma toFahrenheit_50: "toFahrenheit 50 = Fixed1 False 1220" by code_simp
lemma fl_68: "fl 68 = 68" by code_simp
lemma fl_50: "fl 50 = 50" by code_simp
lemma text_320: "fixed1_text (Fixed1 False 320) = ''32.0''" by code_simp
lemma text_2120: "fixed1_text (Fixed1 False 2120) = ''212.0''" by code_simp
lemma text_680: "fixed1_text (Fixed1 False 680) = ''68.0''" by code_simp
lemma text_1544: "fixed1_text (Fixed1 False 1544) = ''154.4''" by code_simp
lemma text_351: "fixed1_text (Fixed1 False 351) = ''35.1''" by code_simp
lemma toFahrenheit_7_4: "toFahrenheit (7/4) = Fixed1 False 351" by code_simp
lemma toFahrenheit_7_4_up: "toFahrenheit (7/4 + 1/2^50) = Fixed1 False 351" by code_simp
lemma fl_7_4: "fl (7/4) = 7/4" by code_simp
lemma fl_7_4_up: "fl (7/4 + 1/2^50) = 7/4 + 1/2^50" by code_simp

text \<open>
  C6, as stated, has the conversion equal \<open>c * 9/5 + 32\<close> rounded to one decimal for every
  Celsius value. The expression is evaluated in double arithmetic and \<open>toFixed\<close> rounds
  the double it is given. At \<open>c = 1.75\<close> the exact value is \<open>35.15\<close>, the double computed
  lies just below it, and the text is \<open>35.1\<close>. Four doubles further up, at
  \<open>1.75 + 2^-50\<close>, the exact value lies above \<open>35.15\<close>, so \<open>35.2\<close> is strictly nearer
  to it than \<open>35.1\<close>, and the text is still \<open>35.1\<close>.
\<close>

theorem toFahrenheit_not_exact_rounding:
  "fl (7/4) = 7/4
   \<and> toFahrenheit (7/4) = Fixed1 False 351
   \<and> fixed1_text (Fixed1 False 351) = ''35.1''
   \<and> (7/4 :: rat) * 9 / 5 + 32 = 3515 / 100
   \<and> fl (7/4 + 1/2^50) = 7/4 + 1/2^50
   \<and> toFahrenheit (7/4 + 1/2^50) = Fixed1 False 351
   \<and> \<bar>352 / 10 - ((7/4 + 1/2^50 :: rat) * 9 / 5 + 32)\<bar>
       < \<bar>fixed1_value (Fixed1 False 351) - ((7/4 + 1/2^50) * 9 / 5 + 32)\<bar>"
proof -
  have exact: "(7/4 :: rat) * 9 / 5 + 32 = 3515 / 100"
    by simp
  have nearer: "\<bar>352 / 10 - ((7/4 + 1/2^50 :: rat) * 9 / 5 + 32)\<bar>
       < \<bar>fixed1_value (Fixed1 False 351) - ((7/4 + 1/2^50) * 9 / 5 + 32)\<bar>"
    by simp
  show ?thesis
    using fl_7_4 toFahrenheit_7_4 text_351 exact fl_7_4_up toFahrenheit_7_4_up nearer
    by blast
qed

text \<open>
  C6, amended. For every Celsius value with at most one decimal digit and magnitude at
  most \<open>10^6\<close> (held as the double nearest to it), the conversion yields the exact value
  of \<open>c * 9/5 + 32\<close> rounded to one decimal digit, which is less than half a tenth away
  from that exact value; in particular \<open>0\<close> gives \<open>32.0\<close> and \<open>100\<close> gives \<open>212.0\<close>.
  The conversion is a total function with no error result.
\<close>

theorem toFahrenheit_one_decimal:
  "(\<bar>k\<bar> \<le> 10000000 \<longrightarrow>
      toFahrenheit (fl (of_int k / 10)) = toFixed1 (of_int k / 10 * 9 / 5 + 32)
      \<and> \<bar>fixed1_value (toFahrenheit (fl (of_int k / 10))) - (of_int k / 10 * 9 / 5 + 32)\<bar> < 1 / 20)
   \<and> toFahrenheit 0 = Fixed1 False 320 \<and> fixed1_text (toFahrenheit 0) = ''32.0''
   \<and> toFahrenheit 100 = Fixed1 False 2120 \<and> fixed1_text (toFahrenheit 100) = ''212.0''"
  using toFahrenheit_decimal_input [of k] toFixed1_nearest [of k]
  by (simp add: toFahrenheit_0 toFahrenheit_100 text_320 text_2120 del: fixed1_text.simps)

theorem toFahrenheit_one_decimal_witness:
  "toFahrenheit (fl (203 / 10)) = Fixed1 False 685
   \<and> toFahrenheit (fl (- 405 / 10)) = Fixed1 True 409"
proof -
  have r: "\<bar>203 :: int\<bar> \<le> 10000000" "\<bar>- 405 :: int\<bar> \<le> 10000000"
    by simp_all
  from toFahrenheit_one_decimal [of 203] r(1)
  have "toFahrenheit (fl (of_int 203 / 10)) = toFixed1 (of_int 203 / 10 * 9 / 5 + 32)"
    by blast
  also have "\<dots> = Fixed1 False 685"
    by code_simp
  finally have warm: "toFahrenheit (fl (203 / 10)) = Fixed1 False 685"
    by simp
  from toFahrenheit_one_decimal [of "- 405"] r(2)
  have "toFahrenheit (fl (of_int (- 405) / 10)) = toFixed1 (of_int (- 405) / 10 * 9 / 5 + 32)"
    by blast
  also have "\<dots> = Fixed1 True 409"
    by code_simp
  finally have cold: "toFahrenheit (fl (- 405 / 10)) = Fixed1 True 409"
    by simp
  from warm cold show ?thesis by simp
qed

section \<open>The renderers\<close>

lemma cards_Weather:
  "shown_cards (Weather s) =
     (case weatherData s of None \<Rightarrow> []
      | Some wd \<Rightarrow> map (\<lambda>d. ForecastCard (date d) (maxtemp_c (day d)) (mintemp_c (day d))
                           (cond_text (day_condition (day d))) (cond_icon (day_condition (day d)))
                           (tempUnit s)) (forecastday (forecast wd)))"
  by (simp add: shown_cards_def Weather_def split: option.splits)

lemma cards_Weather_000:
  "shown_cards (Weather_000 s) =
     (case weatherData s of None \<Rightarrow> []
      | Some wd \<Rightarrow> map (\<lambda>d. ForecastCard_000 (date d)
                           (Number_js (if tempUnit s = UnitC then Num (maxtemp_c (day d))
                                       else Str (toFahrenheit (maxtemp_c (day d)))))
                           (Number_js (if tempUnit s = UnitC then Num (mintemp_c (day d))
                                       else Str (toFahrenheit (mintemp_c (day d)))))
                           (cond_text (day_condition (day d))) (cond_icon (day_condition (day d)))
                           (tempUnit s)) (forecastday (forecast wd)))"
  by (simp add: shown_cards_def Weather_000_def split: option.splits)

lemma panel_present:
  "weatherData s = Some wd \<Longrightarrow> panel (Weather s) \<noteq> None \<and> panel (Weather_000 s) \<noteq> None"
  by (simp add: Weather_def Weather_000_def)

text \<open>
  C2 asks that in Fahrenheit every forecast temperature shown be the conversion of the
  stored Celsius value. For a snapshot with current temperature 20 and one forecast day
  with maximum 20 and minimum 10, in Fahrenheit: the second variant shows \<open>68.0\<close> as the
  current temperature, but its parent converts the forecast values and the card converts
  them again, so the card shows \<open>154.4\<close> and \<open>122.0\<close>; the card of \<open>Weather.tsx\<close> has the
  same expression in both branches and shows the Celsius number \<open>20\<close> beside the unit
  letter \<open>F\<close>.
\<close>

theorem forecast_fahrenheit_shown:
  "temp_shown (the (panel (Weather_000 (showing (sample ''Oslo'' 20 [sample_day ''2024-03-23'' 20 10]) UnitF))))
     = Str (toFahrenheit 20)
   \<and> fixed1_text (toFahrenheit 20) = ''68.0''
   \<and> map card_max (shown_cards (Weather_000 (showing (sample ''Oslo'' 20 [sample_day ''2024-03-23'' 20 10]) UnitF)))
     = [Str (Fixed1 False 1544)]
   \<and> fixed1_text (Fixed1 False 1544) = ''154.4''
   \<and> map card_min (shown_cards (Weather_000 (showing (sample ''Oslo'' 20 [sample_day ''2024-03-23'' 20 10]) UnitF)))
     = [Str (Fixed1 False 1220)]
   \<and> map card_max (shown_cards (Weather (showing (sample ''Oslo'' 20 [sample_day ''2024-03-23'' 20 10]) UnitF)))
     = [Num 20]
   \<and> map card_unit (shown_cards (Weather (showing (sample ''Oslo'' 20 [sample_day ''2024-03-23'' 20 10]) UnitF)))
     = [UnitF]"
proof -
  let ?s = "showing (sample ''Oslo'' 20 [sample_day ''2024-03-23'' 20 10]) UnitF"
  have current: "temp_shown (the (panel (Weather_000 ?s))) = Str (toFahrenheit 20)"
    by (simp add: Weather_000_def showing_def sample_def)
  have cards_000: "shown_cards (Weather_000 ?s)
      = [ForecastCard_000 ''2024-03-23'' (fl (fixed1_value (toFahrenheit 20)))
           (fl (fixed1_value (toFahrenheit 10))) ''Sunny'' ''sun.png'' UnitF]"
    by (simp add: cards_Weather_000 showing_def sample_def sample_day_def)
  have cards_tsx: "shown_cards (Weather ?s)
      = [ForecastCard ''2024-03-23'' 20 10 ''Sunny'' ''sun.png'' UnitF]"
    by (simp add: cards_Weather showing_def sample_def sample_day_def)
  show ?thesis
    unfolding current cards_000 cards_tsx
    by (simp add: ForecastCard_def ForecastCard_000_def
          toFahrenheit_20 toFahrenheit_10 toFahrenheit_68 toFahrenheit_50 fl_68 fl_50
          text_680 text_1544
        del: fixed1_text.simps)
qed

text \<open>
  For a stored snapshot with exactly five forecast days, both renderers produce five
  cards, the \<open>i\<close>-th card made from the \<open>i\<close>-th day: its date, its condition text (also
  the image's alternative text), its icon and the unit letter of the state; while the
  unit is Celsius, the maximum and minimum shown are the stored numbers.
\<close>

lemma cards_follow_days:
  assumes "weatherData s = Some wd" and "length (forecastday (forecast wd)) = 5" and "i < 5"
  shows "panel (Weather s) \<noteq> None \<and> panel (Weather_000 s) \<noteq> None
       \<and> length (shown_cards (Weather s)) = 5 \<and> length (shown_cards (Weather_000 s)) = 5
       \<and> card_date (shown_cards (Weather s) ! i) = date (forecastday (forecast wd) ! i)
       \<and> card_text (shown_cards (Weather s) ! i)
           = cond_text (day_condition (day (forecastday (forecast wd) ! i)))
       \<and> card_img_src (shown_cards (Weather s) ! i)
           = cond_icon (day_condition (day (forecastday (forecast wd) ! i)))
       \<and> card_img_alt (shown_cards (Weather s) ! i)
           = cond_text (day_condition (day (forecastday (forecast wd) ! i)))
       \<and> card_unit (shown_cards (Weather s) ! i) = tempUnit s
       \<and> card_date (shown_cards (Weather_000 s) ! i) = date (forecastday (forecast wd) ! i)
       \<and> card_text (shown_cards (Weather_000 s) ! i)
           = cond_text (day_condition (day (forecastday (forecast wd) ! i)))
       \<and> card_img_src (shown_cards (Weather_000 s) ! i)
           = cond_icon (day_condition (day (forecastday (forecast wd) ! i)))
       \<and> card_img_alt (shown_cards (Weather_000 s) ! i)
           = cond_text (day_condition (day (forecastday (forecast wd) ! i)))
       \<and> card_unit (shown_cards (Weather_000 s) ! i) = tempUnit s
       \<and> (tempUnit s = UnitC \<longrightarrow>
            card_max (shown_cards (Weather s) ! i)
              = Num (maxtemp_c (day (forecastday (forecast wd) ! i)))
          \<and> card_min (shown_cards (Weather s) ! i)
              = Num (mintemp_c (day (forecastday (forecast wd) ! i)))
          \<and> card_max (shown_cards (Weather_000 s) ! i)
              = Num (maxtemp_c (day (forecastday (forecast wd) ! i)))
          \<and> card_min (shown_cards (Weather_000 s) ! i)
              = Num (mintemp_c (day (forecastday (forecast wd) ! i))))"
proof -
  from assms have "length (shown_cards (Weather s)) = 5 \<and> length (shown_cards (Weather_000 s)) = 5"
    by (simp add: cards_Weather cards_Weather_000)
  with panel_present [OF assms(1)] show ?thesis using assms
    by (simp add: cards_Weather cards_Weather_000 ForecastCard_def ForecastCard_000_def)
qed

text \<open>
  C9 asks for five cards in the order of the days, each showing that day's date,
  condition and maximum and minimum temperature. For the five-day snapshot
  \<open>five_days\<close> shown in Fahrenheit, both renderers produce five cards with the five dates
  in order and the unit letter \<open>F\<close>, but the temperatures are not the days': the first
  day's maximum of 20 degrees Celsius is 68.0 in Fahrenheit, and the card of the second
  variant shows \<open>154.4\<close> (and \<open>122.0\<close> for the minimum of 10, which is 50.0), while the
  card of \<open>Weather.tsx\<close> shows the Celsius number \<open>20\<close> beside the letter \<open>F\<close>.
\<close>

theorem five_day_forecast_in_fahrenheit:
  "length (shown_cards (Weather_000 (showing (sample ''Oslo'' 20 five_days) UnitF))) = 5
   \<and> length (shown_cards (Weather (showing (sample ''Oslo'' 20 five_days) UnitF))) = 5
   \<and> map card_date (shown_cards (Weather_000 (showing (sample ''Oslo'' 20 five_days) UnitF)))
       = [''2024-03-23'', ''2024-03-24'', ''2024-03-25'', ''2024-03-26'', ''2024-03-27'']
   \<and> map card_date (shown_cards (Weather (showing (sample ''Oslo'' 20 five_days) UnitF)))
       = [''2024-03-23'', ''2024-03-24'', ''2024-03-25'', ''2024-03-26'', ''2024-03-27'']
   \<and> map card_unit (shown_cards (Weather_000 (showing (sample ''Oslo'' 20 five_days) UnitF)))
       = [UnitF, UnitF, UnitF, UnitF, UnitF]
   \<and> map card_unit (shown_cards (Weather (showing (sample ''Oslo'' 20 five_days) UnitF)))
       = [UnitF, UnitF, UnitF, UnitF, UnitF]
   \<and> maxtemp_c (day (five_days ! 0)) = 20 \<and> mintemp_c (day (five_days ! 0)) = 10
   \<and> fixed1_text (toFahrenheit 20) = ''68.0'' \<and> fixed1_text (toFahrenheit 10) = ''50.0''
   \<and> card_max (shown_cards (Weather_000 (showing (sample ''Oslo'' 20 five_days) UnitF)) ! 0)
       = Str (Fixed1 False 1544)
   \<and> fixed1_text (Fixed1 False 1544) = ''154.4''
   \<and> card_min (shown_cards (Weather_000 (showing (sample ''Oslo'' 20 five_days) UnitF)) ! 0)
       = Str (Fixed1 False 1220)
   \<and> fixed1_text (Fixed1 False 1220) = ''122.0''
   \<and> card_max (shown_cards (Weather (showing (sample ''Oslo'' 20 five_days) UnitF)) ! 0) = Num 20
   \<and> card_min (shown_cards (Weather (showing (sample ''Oslo'' 20 five_days) UnitF)) ! 0) = Num 10"
proof -
  let ?s = "showing (sample ''Oslo'' 20 five_days) UnitF"
  have cards_000: "shown_cards (Weather_000 ?s)
      = map (\<lambda>d. ForecastCard_000 (date d)
                   (fl (fixed1_value (toFahrenheit (maxtemp_c (day d)))))
                   (fl (fixed1_value (toFahrenheit (mintemp_c (day d)))))
                   (cond_text (day_condition (day d))) (cond_icon (day_condition (day d))) UnitF)
            five_days"
    by (simp add: cards_Weather_000 showing_def sample_def)
  have cards_tsx: "shown_cards (Weather ?s)
      = map (\<lambda>d. ForecastCard (date d) (maxtemp_c (day d)) (mintemp_c (day d))
                   (cond_text (day_condition (day d))) (cond_icon (day_condition (day d))) UnitF)
            five_days"
    by (simp add: cards_Weather showing_def sample_def)
  have first: "five_days ! 0 = sample_day ''2024-03-23'' 20 10"
    by (simp add: five_days_def)
  have len: "length five_days = 5"
    by (simp add: five_days_def)
  have dates: "map date five_days
      = [''2024-03-23'', ''2024-03-24'', ''2024-03-25'', ''2024-03-26'', ''2024-03-27'']"
    by (simp add: five_days_def sample_day_def)
  have units: "map (\<lambda>d. UnitF) five_days = [UnitF, UnitF, UnitF, UnitF, UnitF]"
    by (simp add: five_days_def)
  have texts: "fixed1_text (toFahrenheit 20) = ''68.0''" "fixed1_text (toFahrenheit 10) = ''50.0''"
    "fixed1_text (Fixed1 False 1544) = ''154.4''" "fixed1_text (Fixed1 False 1220) = ''122.0''"
    by code_simp+
  have stored: "maxtemp_c (day (five_days ! 0)) = 20" "mintemp_c (day (five_days ! 0)) = 10"
    by (simp_all add: first sample_day_def)
  have shown_000:
    "card_max (shown_cards (Weather_000 ?s) ! 0) = Str (Fixed1 False 1544)"
    "card_min (shown_cards (Weather_000 ?s) ! 0) = Str (Fixed1 False 1220)"
    unfolding cards_000
    by (simp_all add: len first sample_day_def ForecastCard_000_def
          toFahrenheit_20 toFahrenheit_10 toFahrenheit_68 toFahrenheit_50 fl_68 fl_50)
  have shown_tsx:
    "card_max (shown_cards (Weather ?s) ! 0) = Num 20"
    "card_min (shown_cards (Weather ?s) ! 0) = Num 10"
    unfolding cards_tsx
    by (simp_all add: len first sample_day_def ForecastCard_def)
  have order_000: "map card_date (shown_cards (Weather_000 ?s)) = map date five_days"
    "map card_unit (shown_cards (Weather_000 ?s)) = map (\<lambda>d. UnitF) five_days"
    unfolding cards_000 by (simp_all add: ForecastCard_000_def comp_def)
  have order_tsx: "map card_date (shown_cards (Weather ?s)) = map date five_days"
    "map card_unit (shown_cards (Weather ?s)) = map (\<lambda>d. UnitF) five_days"
    unfolding cards_tsx by (simp_all add: ForecastCard_def comp_def)
  have count: "length (shown_cards (Weather_000 ?s)) = 5" "length (shown_cards (Weather ?s)) = 5"
    unfolding cards_000 cards_tsx by (simp_all add: len)
  show ?thesis
    using count order_000 order_tsx dates units stored texts shown_000 shown_tsx
    by (simp only: simp_thms)
qed

text \<open>
  C10. For a stored snapshot with any number of forecast days, none or more than five
  included, both renderers produce one card per day; and the success callback stores the
  payload it is given whatever that number is.
\<close>

theorem one_panel_per_entry:
  assumes "weatherData s = Some wd"
  shows "panel (Weather s) \<noteq> None \<and> panel (Weather_000 s) \<noteq> None
       \<and> length (shown_cards (Weather s)) = length (forecastday (forecast wd))
       \<and> length (shown_cards (Weather_000 s)) = length (forecastday (forecast wd))
       \<and> (j \<in> set (pending w) \<longrightarrow>
            weatherData (ui (step (Fulfil j wd) w)) = Some wd
            \<and> error (ui (step (Fulfil j wd) w)) = None)"
  using assms panel_present [OF assms]
  by (simp add: cards_Weather cards_Weather_000 on_then_def)

theorem one_panel_per_entry_witness:
  "length (shown_cards (Weather (showing (sample ''Oslo'' 20 []) UnitC))) = 0
   \<and> length (shown_cards (Weather_000 (showing (sample ''Oslo'' 20 (sample_day ''2024-03-28'' 17 7 # sample_day ''2024-03-29'' 16 6 # five_days)) UnitF))) = 7
   \<and> weatherData (ui (step (Fulfil 0 (sample ''Oslo'' 20 [])) (run [Submit ''Oslo''])))
       = Some (sample ''Oslo'' 20 [])"
  using one_panel_per_entry [of "showing (sample ''Oslo'' 20 []) UnitC" "sample ''Oslo'' 20 []"
          0 "run [Submit ''Oslo'']"]
        one_panel_per_entry [of "showing (sample ''Oslo'' 20 (sample_day ''2024-03-28'' 17 7 # sample_day ''2024-03-29'' 16 6 # five_days)) UnitF"
          "sample ''Oslo'' 20 (sample_day ''2024-03-28'' 17 7 # sample_day ''2024-03-29'' 16 6 # five_days)"
          0 "run [Submit ''Oslo'']"]
  by (simp add: showing_def sample_def five_days_def ctl_defs)

end
